theory Spec2Isabelle
  imports Complex_Main "HOL-Library.AList"
begin

section \<open>Python values shared by the components\<close>

text \<open>
  Exceptions are values. The kinds are the classes the orchestrator raises or catches;
  \<open>NoModelAvailable\<close> and \<open>RoutingRuleError\<close> are subclasses of \<open>RouterError\<close>,
  \<open>EscalationRequired\<close> is a subclass of \<open>HybridCoreError\<close>, and every kind is a
  subclass of \<open>Exception\<close>, so an \<open>except Exception\<close> clause catches all of them,
  while \<open>except NoModelAvailable\<close> and \<open>except EscalationRequired\<close> catch exactly
  one kind (they have no subclasses).
\<close>

datatype exc_kind =
    ValueError | KeyError | NotImplementedError | TimeoutError
  | RouterError | NoModelAvailable | RoutingRuleError
  | HybridCoreError | EscalationRequired | OtherException

datatype pyexc = Exc exc_kind string

fun exc_kind_of :: "pyexc \<Rightarrow> exc_kind" where
  "exc_kind_of (Exc k m) = k"

text \<open>\<open>str(exc)\<close>: the message; a \<open>KeyError\<close> prints the repr of its argument.\<close>

fun str_exc :: "pyexc \<Rightarrow> string" where
  "str_exc (Exc k m) = (if k = KeyError then [CHR 39] @ m @ [CHR 39] else m)"

text \<open>\<open>d.get(key, default)\<close> on a field that may be absent.\<close>

fun get_default :: "'a \<Rightarrow> 'a option \<Rightarrow> 'a" where
  "get_default d None = d"
| "get_default d (Some v) = v"

text \<open>
  The values a request or a routing condition holds (\<open>Dict[str, Any]\<close>): \<open>None\<close>,
  strings and integers (Python's \<open>True\<close> and \<open>False\<close> are the integers 1 and 0 under
  \<open>==\<close>). A dict is an association list with distinct keys; \<open>d.get(key)\<close> is
  \<open>None\<close> for a missing key.
\<close>

datatype pyval = PyNone | PyStr string | PyInt int

type_synonym request = "(string \<times> pyval) list"

definition dict_get :: "(string \<times> pyval) list \<Rightarrow> string \<Rightarrow> pyval" where
  "dict_get d key = get_default PyNone (map_of d key)"

text \<open>A backend response: a dict whose optional \<open>embedding\<close> entry is a vector.\<close>

record response =
  content :: "(string \<times> pyval) list"
  embedding :: "real list option"

type_synonym precedent_case = "(string \<times> pyval) list"

section \<open>Critic judgments\<close>

text \<open>
  A critic's output is a dict with the keys \<open>score\<close>, \<open>confidence\<close>, \<open>violation\<close> and
  \<open>rationale\<close>, each of which may be missing (the fusion code reads them with
  \<open>.get(key, default)\<close>). Floats are modelled as reals. The judgments map is a dict
  keyed by critic name; it is kept as an association list in insertion order, the
  order in which \<open>.items()\<close> and \<open>.values()\<close> iterate.
\<close>

record critic_judgment =
  score :: "real option"
  confidence :: "real option"
  violation :: "bool option"
  rationale :: "string option"

type_synonym judgments = "(string \<times> critic_judgment) list"

section \<open>fusion/critic\_fusion.py\<close>

definition RIGHTS_CRITICS :: "string set" where
  "RIGHTS_CRITICS = {''rights''}"

definition DEFAULT_WEIGHTS :: "(string \<times> real) list" where
  "DEFAULT_WEIGHTS =
     [(''rights'', 0.0), (''risk'', 0.25), (''fairness'', 0.25),
      (''truth'', 0.25), (''pragmatics'', 0.25)]"

text \<open>\<open>self.weights = weights or self.DEFAULT_WEIGHTS\<close>: \<open>None\<close> and the empty dict are falsy.\<close>

definition CriticFusion_init :: "(string \<times> real) list option \<Rightarrow> (string \<times> real) list" where
  "CriticFusion_init weights =
     (case weights of
        None \<Rightarrow> DEFAULT_WEIGHTS
      | Some w \<Rightarrow> if w = [] then DEFAULT_WEIGHTS else w)"

record fusion_out =
  aggregate_score :: real
  violations :: "string list"
  lex_block :: bool
  details :: judgments

text \<open>The first loop of \<open>fuse\<close>: the names of the rights critics that report a violation.\<close>

fun lex_violations :: "judgments \<Rightarrow> string list" where
  "lex_violations [] = []"
| "lex_violations ((name, out) # critics) =
     (if name \<in> RIGHTS_CRITICS \<and> get_default False (violation out)
      then name # lex_violations critics
      else lex_violations critics)"

text \<open>The second loop of \<open>fuse\<close>: \<open>total += w * score\<close>, starting from \<open>0.0\<close>.\<close>

definition weighted_total :: "(string \<times> real) list \<Rightarrow> judgments \<Rightarrow> real" where
  "weighted_total weights critics =
     foldl (\<lambda>total (name, out).
              total + get_default 0.0 (map_of weights name) * get_default 0.0 (score out))
           0.0 critics"

text \<open>
  \<open>CriticFusion.fuse\<close>. The span emitted around it goes through the event bus, whose
  listeners are isolated, and does not touch the result.
\<close>

definition fuse :: "(string \<times> real) list \<Rightarrow> judgments \<Rightarrow> fusion_out" where
  "fuse weights critics =
     (let lex = lex_violations critics in
      if lex \<noteq> []
      then \<lparr>aggregate_score = 0.0, violations = lex, lex_block = True, details = critics\<rparr>
      else \<lparr>aggregate_score = weighted_total weights critics, violations = [],
            lex_block = False, details = critics\<rparr>)"

section \<open>fusion/uncertainty\_fusion.py\<close>

text \<open>
  \<open>statistics.pvariance\<close> of the standard library: the mean of the squared deviations
  from the mean. The library computes it on exact fractions; it is only called here on
  two or more values.
\<close>

definition pvariance :: "real list \<Rightarrow> real" where
  "pvariance xs =
     (let n = real (length xs); mu = sum_list xs / n
      in sum_list (map (\<lambda>x. (x - mu)\<^sup>2) xs) / n)"

text \<open>
  The builtin \<open>min\<close> on a sequence: it raises \<open>ValueError\<close> on an empty one (the
  wording of the message is the interpreter's).
\<close>

fun py_min :: "real list \<Rightarrow> pyexc + real" where
  "py_min [] = Inl (Exc ValueError ''min() arg is an empty sequence'')"
| "py_min (x # xs) = Inr (foldl min x xs)"

record uncertainty_out =
  uncertainty :: real
  escalate :: bool
  dispersion :: real
  min_confidence :: real

text \<open>The loop of \<open>compute\<close> that appends to \<open>scores\<close> and \<open>confidences\<close>.\<close>

fun collect :: "critic_judgment list \<Rightarrow> real list \<times> real list \<Rightarrow> real list \<times> real list" where
  "collect [] acc = acc"
| "collect (c # cs) (scores, confidences) =
     collect cs (scores @ [get_default 0.0 (score c)],
                 confidences @ [get_default 0.0 (confidence c)])"

text \<open>
  \<open>UncertaintyEngine.compute\<close> with \<open>self.threshold = threshold\<close>. The first
  \<open>min(confidences)\<close> is evaluated before anything is emitted or returned, so its
  \<open>ValueError\<close> is the outcome of the whole call.
\<close>

definition compute :: "real \<Rightarrow> judgments \<Rightarrow> pyexc + uncertainty_out" where
  "compute threshold critics =
     (let (scores, confidences) = collect (map snd critics) ([], []);
          disp = (if length scores > 1 then pvariance scores else 0.0)
      in case py_min confidences of
           Inl e \<Rightarrow> Inl e
         | Inr m \<Rightarrow>
             let low_conf = (m < 0.3);
                 raw_uncertainty = min 1.0 (disp * 2.5 + (if low_conf then 0.3 else 0.0));
                 esc = (raw_uncertainty \<ge> threshold)
             in Inr \<lparr>uncertainty = raw_uncertainty, escalate = esc,
                      dispersion = disp, min_confidence = m\<rparr>)"

definition UncertaintyEngine_default_threshold :: real where
  "UncertaintyEngine_default_threshold = 0.35"

section \<open>fusion/precedent\_fusion.py and fusion/consensus\_fusion.py\<close>

text \<open>
  The storage backend is external: \<open>search_embeddings(vector, top_k)\<close> returns a list
  of precedents or raises. \<open>fetch_relevant\<close> turns every failure into the empty list.
\<close>

type_synonym storage = "real list \<Rightarrow> nat \<Rightarrow> pyexc + precedent_case list"

definition fetch_relevant :: "storage \<Rightarrow> real list \<Rightarrow> precedent_case list" where
  "fetch_relevant storage vector =
     (case storage vector 5 of Inr results \<Rightarrow> results | Inl exc \<Rightarrow> [])"

record decision =
  action :: string
  dec_confidence :: real
  dec_uncertainty :: real
  dec_lex_block :: bool
  dec_rationale :: string
  precedent :: "precedent_case list"

text \<open>
  \<open>ConsensusFusion.decide\<close>, given the weights of its critic fusion, the threshold of
  its uncertainty engine and its optional precedent engine.
\<close>

definition decide ::
  "(string \<times> real) list \<Rightarrow> real \<Rightarrow> storage option \<Rightarrow> judgments \<Rightarrow> real list option
   \<Rightarrow> pyexc + decision" where
  "decide weights threshold precedent_engine critics vector =
     (let critic_out = fuse weights critics in
      if lex_block critic_out
      then Inr \<lparr>action = ''reject'', dec_confidence = 1.0, dec_uncertainty = 0.0,
                dec_lex_block = True,
                dec_rationale = ''Rights-critical violation detected.'',
                precedent = []\<rparr>
      else
        let precedents =
              (case (precedent_engine, vector) of
                 (Some storage, Some v) \<Rightarrow> fetch_relevant storage v
               | _ \<Rightarrow> [])
        in case compute threshold critics of
             Inl e \<Rightarrow> Inl e
           | Inr unc \<Rightarrow>
               Inr \<lparr>action = (if escalate unc then ''escalate'' else ''proceed''),
                    dec_confidence = aggregate_score critic_out,
                    dec_uncertainty = uncertainty unc,
                    dec_lex_block = False,
                    dec_rationale =
                      ''Decision derived from Eleanor's multi-critic fusion logic.'',
                    precedent = precedents\<rparr>)"

section \<open>hybrid\_core/hybrid\_modes.py and the mode gate\<close>

record mode_config =
  mode_name :: string
  enforce_lex :: bool
  allow_override :: bool
  auto_escalate :: bool
  uncertainty_threshold :: real
  block_on_violation :: bool
  advisory_only :: bool

definition BALANCED :: mode_config where
  "BALANCED = \<lparr>mode_name = ''balanced'', enforce_lex = True, allow_override = False,
               auto_escalate = True, uncertainty_threshold = 0.35,
               block_on_violation = True, advisory_only = False\<rparr>"

text \<open>
  The dicts a deliberation and the runtime return:
  \<open>Gate a r f\<close> is \<open>{"action": a, "reason": r, "fusion": f}\<close> (the reason is absent for
  advice), \<open>Verbatim f\<close> is the fusion decision itself, and the last two are the
  runtime's own envelopes \<open>{"action": "escalate", "reason": r, "id": i}\<close> and
  \<open>{"action": "error", "error": e, "id": i}\<close>.
\<close>

datatype envelope =
    Gate string "string option" "decision"
  | Verbatim "decision"
  | EscalateEnvelope string string
  | ErrorEnvelope string string

fun envelope_action :: "envelope \<Rightarrow> string" where
  "envelope_action (Gate a r f) = a"
| "envelope_action (Verbatim f) = action f"
| "envelope_action (EscalateEnvelope r i) = ''escalate''"
| "envelope_action (ErrorEnvelope e i) = ''error''"

fun envelope_reason :: "envelope \<Rightarrow> string option" where
  "envelope_reason (Gate a r f) = r"
| "envelope_reason (Verbatim f) = None"
| "envelope_reason (EscalateEnvelope r i) = Some r"
| "envelope_reason (ErrorEnvelope e i) = None"

text \<open>\<open>HybridCore._apply_mode\<close>.\<close>

definition apply_mode :: "mode_config \<Rightarrow> decision \<Rightarrow> pyexc + envelope" where
  "apply_mode mode fusion_result =
     (if dec_lex_block fusion_result \<and> enforce_lex mode
      then Inr (Gate ''reject'' (Some ''rights_violation'') fusion_result)
      else if advisory_only mode
      then Inr (Gate ''advice'' None fusion_result)
      else if action fusion_result = ''escalate'' \<and> auto_escalate mode
      then Inl (Exc EscalationRequired ''Uncertainty threshold exceeded.'')
      else Inr (Verbatim fusion_result))"

section \<open>The process state and calls that may raise\<close>

text \<open>
  What an event or a telemetry record carries: strings, numbers, requests, responses,
  decision envelopes and nested dicts.
\<close>

datatype detail =
    DNone | DStr string | DNum real | DRequest request | DResponse response
  | DEnvelope envelope | DDict "(string \<times> detail) list"

text \<open>
  \<open>Event\<close> of commons/events.py. Its \<open>id\<close> and \<open>timestamp\<close> come from \<open>uuid4\<close> and the
  clock by default factories and are left out.
\<close>

record event =
  event_name :: string
  payload :: "(string \<times> detail) list"
  metadata :: "(string \<times> detail) list"

text \<open>
  A listener and a hook are callables that return or raise; the identifier stands for
  the identity of the callable.
\<close>

record listener =
  listener_id :: string
  on_event :: "event \<Rightarrow> pyexc + unit"

record hook =
  hook_id :: string
  on_fire :: "(string \<times> detail) list \<Rightarrow> pyexc + unit"

text \<open>\<open>RuntimeState\<close> of runtime/runtime\_state.py (the clock fields are left out).\<close>

record runtime_state =
  active_tasks :: int
  completed_tasks :: int
  failed_tasks :: int
  request_log :: "(string \<times> request) list"

text \<open>
  The state of the process: the listener table of the bus singleton, the hook table of
  the hook manager singleton, the runtime state, and a record of what happened: the
  events constructed by \<open>emit\<close>, the listener and hook invocations, the error records
  handed to the loggers, and the number of calls made to the backend runner.
\<close>

record world =
  listeners :: "(string \<times> listener list) list"
  hooks :: "(string \<times> hook list) list"
  rt_state :: runtime_state
  emitted :: "event list"
  invocations :: "(string \<times> event) list"
  hook_invocations :: "(string \<times> (string \<times> detail) list) list"
  error_log :: "(string \<times> pyexc) list"
  runner_calls :: nat

text \<open>
  A call takes the world and gives back the new world with either the value it returns
  (\<open>Inr\<close>) or the exception it raises (\<open>Inl\<close>).
\<close>

type_synonym 'a io = "world \<Rightarrow> (pyexc + 'a) \<times> world"

definition returns :: "'a \<Rightarrow> 'a io" where
  "returns x w = (Inr x, w)"

definition raises :: "pyexc \<Rightarrow> 'a io" where
  "raises e w = (Inl e, w)"

text \<open>Sequencing: an exception of the first call skips the rest.\<close>

definition and_then :: "'a io \<Rightarrow> ('a \<Rightarrow> 'b io) \<Rightarrow> 'b io" where
  "and_then m f w = (case m w of (Inl e, w') \<Rightarrow> (Inl e, w') | (Inr x, w') \<Rightarrow> f x w')"

text \<open>\<open>try: m except Exception as exc: handler\<close>; what the handler raises propagates.\<close>

definition try_except :: "'a io \<Rightarrow> (pyexc \<Rightarrow> 'a io) \<Rightarrow> 'a io" where
  "try_except m handler w =
     (case m w of (Inl e, w') \<Rightarrow> handler e w' | (Inr x, w') \<Rightarrow> (Inr x, w'))"

text \<open>\<open>try: m finally: cleanup\<close>: the cleanup runs on both outcomes.\<close>

definition try_finally :: "'a io \<Rightarrow> unit io \<Rightarrow> 'a io" where
  "try_finally m cleanup w =
     (case m w of (r, w') \<Rightarrow>
        (case cleanup w' of (Inl e, w'') \<Rightarrow> (Inl e, w'') | (Inr u, w'') \<Rightarrow> (r, w'')))"

definition log_error :: "string \<Rightarrow> pyexc \<Rightarrow> unit io" where
  "log_error logger exc w = (Inr (), w\<lparr>error_log := error_log w @ [(logger, exc)]\<rparr>)"

section \<open>commons/events.py\<close>

definition subscribe :: "string \<Rightarrow> listener \<Rightarrow> unit io" where
  "subscribe nm l w =
     (Inr (), w\<lparr>listeners :=
                   AList.update nm (get_default [] (map_of (listeners w) nm) @ [l])
                     (listeners w)\<rparr>)"

text \<open>\<open>EventBus._safe_invoke\<close>: the listener is called; what it raises is logged.\<close>

definition safe_invoke :: "listener \<Rightarrow> event \<Rightarrow> unit io" where
  "safe_invoke l ev =
     try_except
       (\<lambda>w. (on_event l ev, w\<lparr>invocations := invocations w @ [(listener_id l, ev)]\<rparr>))
       (\<lambda>exc. log_error ''eleanor.events'' exc)"

text \<open>
  \<open>asyncio.gather(*tasks, return_exceptions=True)\<close>: every task runs to its end and
  its outcome, value or exception, is an element of the result list. The tasks are
  run here one after the other in the order of their creation.
\<close>

fun gather :: "unit io list \<Rightarrow> world \<Rightarrow> (pyexc + unit) list \<times> world" where
  "gather [] w = ([], w)"
| "gather (t # ts) w =
     (case t w of (r, w1) \<Rightarrow> (case gather ts w1 of (rs, w2) \<Rightarrow> (r # rs, w2)))"

definition broadcast :: "event \<Rightarrow> unit io" where
  "broadcast ev w =
     (let ls = get_default [] (map_of (listeners w) (event_name ev)) in
      if ls = [] then (Inr (), w)
      else let tasks = map (\<lambda>l. safe_invoke l ev) ls
           in case gather tasks w of (results, w') \<Rightarrow> (Inr (), w'))"

text \<open>\<open>EventBus.emit\<close>: \<open>payload or {}\<close> and \<open>metadata or {}\<close>.\<close>

definition emit ::
  "string \<Rightarrow> (string \<times> detail) list option \<Rightarrow> (string \<times> detail) list option \<Rightarrow> event io" where
  "emit nm pl md w =
     (let ev = \<lparr>event_name = nm, payload = get_default [] pl, metadata = get_default [] md\<rparr>
      in and_then (broadcast ev) (\<lambda>u. returns ev) (w\<lparr>emitted := emitted w @ [ev]\<rparr>))"

section \<open>commons/hooks.py\<close>

definition safe_hook :: "hook \<Rightarrow> (string \<times> detail) list \<Rightarrow> unit io" where
  "safe_hook fn ctx =
     try_except
       (\<lambda>w. (on_fire fn ctx, w\<lparr>hook_invocations := hook_invocations w @ [(hook_id fn, ctx)]\<rparr>))
       (\<lambda>exc. log_error ''eleanor.hooks'' exc)"

definition fire :: "string \<Rightarrow> (string \<times> detail) list \<Rightarrow> unit io" where
  "fire hook_name ctx w =
     (let hs = get_default [] (map_of (hooks w) hook_name) in
      if hs = [] then (Inr (), w)
      else case gather (map (\<lambda>fn. safe_hook fn ctx) hs) w of (results, w') \<Rightarrow> (Inr (), w'))"

section \<open>commons/telemetry.py\<close>

text \<open>
  Span identifiers, start times and durations come from \<open>uuid4\<close> and the clock and are
  left out; \<open>result_summary\<close> holds the result itself where the source stores the first
  500 characters of its \<open>str\<close>.
\<close>

record span =
  span_name :: string
  span_context :: "(string \<times> detail) list"

definition start_span :: "string \<Rightarrow> (string \<times> detail) list option \<Rightarrow> span io" where
  "start_span nm context =
     and_then
       (emit ''telemetry.span.start''
          (Some [(''name'', DStr nm), (''context'', DDict (get_default [] context))]) None)
       (\<lambda>ev. returns \<lparr>span_name = nm, span_context = get_default [] context\<rparr>)"

definition end_span :: "span \<Rightarrow> detail \<Rightarrow> unit io" where
  "end_span sp result =
     and_then
       (emit ''telemetry.span.end''
          (Some [(''name'', DStr (span_name sp)), (''result_summary'', result)]) None)
       (\<lambda>ev. returns ())"

definition emit_trace :: "string \<Rightarrow> (string \<times> detail) list option \<Rightarrow> unit io" where
  "emit_trace message details_arg =
     and_then
       (emit ''telemetry.trace''
          (Some [(''message'', DStr message),
                 (''details'', DDict (get_default [] details_arg))]) None)
       (\<lambda>ev. returns ())"

section \<open>router/router\_config.py and router/router\_rules.py\<close>

record model_backend_config =
  name :: string
  endpoint :: string
  timeout :: real
  max_retries :: int
  enabled :: bool

text \<open>
  A routing rule is a dict with the optional keys \<open>if\<close> (the condition map) and
  \<open>use_model\<close>.
\<close>

record routing_rule =
  rule_if :: "(string \<times> pyval) list option"
  use_model :: "string option"

record router_config =
  default_model :: string
  models :: "(string \<times> model_backend_config) list"
  routing_rules :: "routing_rule list"

definition get_backend :: "router_config \<Rightarrow> string \<Rightarrow> pyexc + model_backend_config" where
  "get_backend config nm =
     (case map_of (models config) nm of
        None \<Rightarrow> Inl (Exc KeyError (''Unknown model backend: '' @ nm))
      | Some cfg \<Rightarrow> Inr cfg)"

text \<open>The loop of \<open>rule_matches\<close> over \<open>cond.items()\<close>, with its early \<open>return False\<close>.\<close>

fun cond_items_hold :: "(string \<times> pyval) list \<Rightarrow> request \<Rightarrow> bool" where
  "cond_items_hold [] request = True"
| "cond_items_hold ((key, val) # cond) request =
     (if dict_get request key \<noteq> val then False else cond_items_hold cond request)"

definition rule_matches :: "routing_rule \<Rightarrow> request \<Rightarrow> bool" where
  "rule_matches rule request =
     (let cond = get_default [] (rule_if rule) in
      if cond = [] then False else cond_items_hold cond request)"

text \<open>
  \<open>evaluate_rules\<close> returns \<open>rule.get("use_model")\<close> of the first matching rule. Its
  \<open>try\<close> re-raises what \<open>rule_matches\<close> raises; on rules of this type it raises nothing.
\<close>

fun evaluate_rules :: "routing_rule list \<Rightarrow> request \<Rightarrow> string option" where
  "evaluate_rules [] request = None"
| "evaluate_rules (rule # rules) request =
     (if rule_matches rule request then use_model rule else evaluate_rules rules request)"

text \<open>\<open>Router.route\<close>: \<open>if model:\<close> is false for \<open>None\<close> and for the empty string.\<close>

definition route :: "router_config \<Rightarrow> request \<Rightarrow> string" where
  "route config request =
     (case evaluate_rules (routing_rules config) request of
        Some model \<Rightarrow> if model \<noteq> [] then model else default_model config
      | None \<Rightarrow> default_model config)"

section \<open>router/router.py\<close>

text \<open>
  What awaiting a coroutine does, seen by \<open>asyncio.wait_for\<close>: it finishes after some
  time with a value or an exception, or it never finishes. \<open>wait_for\<close> raises
  \<open>TimeoutError\<close> (whose \<open>str\<close> is empty) unless the coroutine finishes before the
  timeout.
\<close>

datatype 'a attempt = Finishes real "pyexc + 'a" | Hangs

fun wait_for :: "real \<Rightarrow> 'a attempt \<Rightarrow> pyexc + 'a" where
  "wait_for t (Finishes d r) = (if d < t then r else Inl (Exc TimeoutError []))"
| "wait_for t Hangs = Inl (Exc TimeoutError [])"

text \<open>
  The backend runner is external. Its behaviour may change from call to call: it is a
  function of the number of calls made to it before, the model name and the request.
\<close>

type_synonym runner = "nat \<Rightarrow> string \<Rightarrow> request \<Rightarrow> response attempt"

definition call_runner :: "runner \<Rightarrow> string \<Rightarrow> request \<Rightarrow> real \<Rightarrow> response io" where
  "call_runner run nm request t w =
     (wait_for t (run (runner_calls w) nm request), w\<lparr>runner_calls := runner_calls w + 1\<rparr>)"

text \<open>\<open>str\<close> of an integer, and of \<open>last_exc\<close>, which is \<open>None\<close> before the first failure.\<close>

fun str_nat :: "nat \<Rightarrow> string" where
  "str_nat n =
     (if n < 10 then [''0123456789'' ! n]
      else str_nat (n div 10) @ [''0123456789'' ! (n mod 10)])"

declare str_nat.simps [simp del]

definition str_int :: "int \<Rightarrow> string" where
  "str_int i = (if i < 0 then ''-'' @ str_nat (nat (- i)) else str_nat (nat i))"

fun str_last_exc :: "pyexc option \<Rightarrow> string" where
  "str_last_exc None = ''None''"
| "str_last_exc (Some exc) = str_exc exc"

definition failed_after :: "model_backend_config \<Rightarrow> pyexc option \<Rightarrow> pyexc" where
  "failed_after cfg last_exc =
     Exc RouterError
       (''Backend '' @ [CHR 39] @ name cfg @ [CHR 39] @ '' failed after ''
        @ str_int (max_retries cfg) @ '' retries: '' @ str_last_exc last_exc)"

text \<open>
  The \<open>for\<close> loop of \<open>Router._run_backend\<close> with the number of iterations left; the
  \<open>raise\<close> after the loop is the case of no iteration left.
\<close>

fun run_backend_loop ::
  "nat \<Rightarrow> model_backend_config \<Rightarrow> runner \<Rightarrow> request \<Rightarrow> pyexc option \<Rightarrow> response io" where
  "run_backend_loop 0 cfg run request last_exc = raises (failed_after cfg last_exc)"
| "run_backend_loop (Suc n) cfg run request last_exc =
     try_except
       (call_runner run (name cfg) request (timeout cfg))
       (\<lambda>exc. and_then
                 (emit_trace ''router.backend_retry''
                    (Some [(''backend'', DStr (name cfg)), (''error'', DStr (str_exc exc))]))
                 (\<lambda>u. run_backend_loop n cfg run request (Some exc)))"

declare run_backend_loop.simps [simp del]

text \<open>\<open>range(cfg.max_retries + 1)\<close> is empty when its argument is not positive.\<close>

definition run_backend :: "model_backend_config \<Rightarrow> runner \<Rightarrow> request \<Rightarrow> response io" where
  "run_backend cfg run request =
     run_backend_loop (nat (max_retries cfg + 1)) cfg run request None"

definition execute ::
  "router_config \<Rightarrow> request \<Rightarrow> runner \<Rightarrow> (string \<times> detail) list option \<Rightarrow> response io" where
  "execute config request backend_runner context =
     and_then (start_span ''router.execute'' context) (\<lambda>sp.
       try_except
         (and_then (\<lambda>w. (get_backend config (route config request), w)) (\<lambda>cfg.
            if \<not> enabled cfg
            then raises (Exc NoModelAvailable
                           (''Model '' @ [CHR 39] @ route config request @ [CHR 39]
                            @ '' is disabled''))
            else and_then (run_backend cfg backend_runner request) (\<lambda>resp.
                 and_then (end_span sp (DResponse resp)) (\<lambda>u. returns resp))))
         (\<lambda>exc.
            if exc_kind_of exc = NoModelAvailable
            then and_then (emit_trace ''router.no_model_available''
                             (Some [(''request'', DRequest request)])) (\<lambda>u.
                 and_then (end_span sp (DStr ''fallback_no_model'')) (\<lambda>u.
                 raises exc))
            else and_then (log_error ''eleanor.router'' exc) (\<lambda>u.
                 and_then (emit_trace ''router.error''
                             (Some [(''error'', DStr (str_exc exc))])) (\<lambda>u.
                 and_then (end_span sp (DStr ''error'')) (\<lambda>u.
                 raises (Exc RouterError (str_exc exc)))))))"

section \<open>hybrid\_core/hybrid\_core.py: the critic fan-out\<close>

text \<open>
  What \<open>asyncio.create_task(critic.evaluate(request, backend_response))\<close> does for one
  critic. The call \<open>critic.evaluate(...)\<close>, or \<open>create_task\<close> on what it returns,
  raises at once (\<open>CallRaises\<close>: an \<open>evaluate\<close> that is not a coroutine function and
  raises before it returns its awaitable, or that returns no coroutine); or a task is
  scheduled, which returns a judgment or raises when it is awaited (\<open>Scheduled\<close>: what
  the body of an \<open>async def evaluate\<close> does).
\<close>

datatype critic_call = CallRaises pyexc | Scheduled "pyexc + critic_judgment"

type_synonym critic = "request \<Rightarrow> response \<Rightarrow> critic_call"

text \<open>The zero-filled judgment of the \<open>except\<close> branch.\<close>

definition critic_error :: "pyexc \<Rightarrow> critic_judgment" where
  "critic_error exc =
     \<lparr>score = Some 0, confidence = Some 0, violation = Some False,
      rationale = Some (''Critic error: '' @ str_exc exc)\<rparr>"

text \<open>
  The dict comprehension that builds \<open>tasks\<close> (lines 109 to 112). It stands before the
  \<open>try\<close>: the first call that raises ends \<open>_evaluate_critics\<close> with that exception.
\<close>

fun create_tasks ::
  "(string \<times> critic) list \<Rightarrow> request \<Rightarrow> response
   \<Rightarrow> pyexc + (string \<times> (pyexc + critic_judgment)) list" where
  "create_tasks [] request backend_response = Inr []"
| "create_tasks ((nm, c) # critics) request backend_response =
     (case c request backend_response of
        CallRaises exc \<Rightarrow> Inl exc
      | Scheduled task \<Rightarrow>
          (case create_tasks critics request backend_response of
             Inl exc \<Rightarrow> Inl exc
           | Inr tasks \<Rightarrow> Inr ((nm, task) # tasks)))"

text \<open>
  The loop over \<open>tasks.items()\<close> (lines 115 to 125): each task is awaited inside the
  \<open>try\<close>, and an exception gives the zero-filled judgment.
\<close>

fun await_tasks :: "(string \<times> (pyexc + critic_judgment)) list \<Rightarrow> judgments" where
  "await_tasks [] = []"
| "await_tasks ((nm, task) # tasks) =
     (nm, (case task of Inr j \<Rightarrow> j | Inl exc \<Rightarrow> critic_error exc)) # await_tasks tasks"

text \<open>\<open>HybridCore._evaluate_critics\<close>.\<close>

definition evaluate_critics ::
  "(string \<times> critic) list \<Rightarrow> request \<Rightarrow> response \<Rightarrow> pyexc + judgments" where
  "evaluate_critics critics request backend_response =
     (case create_tasks critics request backend_response of
        Inl exc \<Rightarrow> Inl exc
      | Inr tasks \<Rightarrow> Inr (await_tasks tasks))"

section \<open>runtime/runtime\_state.py and runtime/runtime.py\<close>

definition log_request :: "string \<Rightarrow> request \<Rightarrow> unit io" where
  "log_request req_id pl w =
     (Inr (), w\<lparr>rt_state := (rt_state w)
                  \<lparr>request_log := AList.update req_id pl (request_log (rt_state w))\<rparr>\<rparr>)"

definition increment_active :: "unit io" where
  "increment_active w =
     (Inr (), w\<lparr>rt_state := (rt_state w)\<lparr>active_tasks := active_tasks (rt_state w) + 1\<rparr>\<rparr>)"

definition decrement_active :: "unit io" where
  "decrement_active w =
     (Inr (), w\<lparr>rt_state := (rt_state w)
                  \<lparr>active_tasks := max 0 (active_tasks (rt_state w) - 1)\<rparr>\<rparr>)"

definition complete :: "unit io" where
  "complete w =
     (Inr (), w\<lparr>rt_state := (rt_state w)
                  \<lparr>completed_tasks := completed_tasks (rt_state w) + 1\<rparr>\<rparr>)"

definition fail :: "unit io" where
  "fail w =
     (Inr (), w\<lparr>rt_state := (rt_state w)\<lparr>failed_tasks := failed_tasks (rt_state w) + 1\<rparr>\<rparr>)"

text \<open>
  The hybrid core handed to the runtime: \<open>hybrid.deliberate(request)\<close> changes the
  world and finishes with a decision or an exception, or does not finish.
\<close>

type_synonym hybrid = "request \<Rightarrow> world \<Rightarrow> envelope attempt \<times> world"

definition deliberate_within :: "hybrid \<Rightarrow> real \<Rightarrow> request \<Rightarrow> envelope io" where
  "deliberate_within hyb decision_timeout request w =
     (case hyb request w of (a, w') \<Rightarrow> (wait_for decision_timeout a, w'))"

text \<open>
  \<open>EleanorRuntime.decide\<close> for the request id drawn by \<open>new_request_id\<close>. One request is
  followed; the semaphore, which only delays admission, is left out.
\<close>

definition runtime_decide :: "hybrid \<Rightarrow> real \<Rightarrow> string \<Rightarrow> request \<Rightarrow> envelope io" where
  "runtime_decide hyb decision_timeout req_id request =
     and_then (log_request req_id request) (\<lambda>u.
     and_then (emit ''runtime.request.received''
                 (Some [(''id'', DStr req_id), (''request'', DRequest request)]) None) (\<lambda>ev.
     and_then (fire ''before_runtime_step''
                 [(''id'', DStr req_id), (''request'', DRequest request)]) (\<lambda>u.
     and_then (start_span ''runtime.decide'' (Some [(''req_id'', DStr req_id)])) (\<lambda>sp.
     try_finally
       (try_except
          (and_then increment_active (\<lambda>u.
           and_then (deliberate_within hyb decision_timeout request) (\<lambda>result.
           and_then complete (\<lambda>u.
           and_then (fire ''after_runtime_step''
                       [(''id'', DStr req_id), (''result'', DEnvelope result)]) (\<lambda>u.
           and_then (emit ''runtime.request.completed''
                       (Some [(''id'', DStr req_id), (''result'', DEnvelope result)]) None) (\<lambda>ev.
           and_then (end_span sp (DEnvelope result)) (\<lambda>u.
           returns result)))))))
          (\<lambda>exc.
             if exc_kind_of exc = EscalationRequired
             then and_then fail (\<lambda>u.
                  and_then (emit_trace ''runtime.escalation'' (Some [(''id'', DStr req_id)])) (\<lambda>u.
                  and_then (emit ''runtime.request.escalation''
                              (Some [(''id'', DStr req_id)]) None) (\<lambda>ev.
                  and_then (end_span sp (DStr ''escalation_required'')) (\<lambda>u.
                  returns (EscalateEnvelope (str_exc exc) req_id)))))
             else and_then fail (\<lambda>u.
                  and_then (log_error ''eleanor.runtime'' exc) (\<lambda>u.
                  and_then (emit_trace ''runtime.error''
                              (Some [(''id'', DStr req_id), (''error'', DStr (str_exc exc))])) (\<lambda>u.
                  and_then (emit ''runtime.request.error''
                              (Some [(''id'', DStr req_id), (''error'', DStr (str_exc exc))])
                              None) (\<lambda>ev.
                  and_then (end_span sp (DStr ''error'')) (\<lambda>u.
                  returns (ErrorEnvelope (str_exc exc) req_id))))))))
       decrement_active))))"

section \<open>The specification's formula and scenarios\<close>

text \<open>
  The uncertainty as the specification words it, on the lists of scores and
  confidences: \<open>min(1.0, 2.5 * dispersion + low_conf_penalty)\<close>, where the dispersion is
  the population variance of two or more scores and 0 otherwise, and the penalty is
  0.3 when the least confidence is below 0.3.
\<close>

definition spec_uncertainty :: "real list \<Rightarrow> real list \<Rightarrow> real" where
  "spec_uncertainty scores confidences =
     min 1.0 (2.5 * (if 2 \<le> length scores then pvariance scores else 0)
              + (if Min (set confidences) < 0.3 then 0.3 else 0))"

text \<open>Scenario S1: a rights violation among otherwise favourable judgments.\<close>

definition scenario_S1 :: judgments where
  "scenario_S1 =
     (''rights'', \<lparr>score = Some 0, confidence = Some 0.9, violation = Some True,
                    rationale = None\<rparr>)
     # map (\<lambda>nm. (nm, \<lparr>score = Some 0.8, confidence = Some 0.9, violation = Some False,
                         rationale = None\<rparr>))
         [''risk'', ''fairness'', ''truth'', ''pragmatics'']"

text \<open>Scenario S2: the five default critics agree on 0.9.\<close>

definition scenario_S2 :: judgments where
  "scenario_S2 =
     map (\<lambda>nm. (nm, \<lparr>score = Some 0.9, confidence = Some 0.9, violation = Some False,
                       rationale = None\<rparr>))
       [''rights'', ''risk'', ''fairness'', ''truth'', ''pragmatics'']"

section \<open>Auxiliary definitions for the statements\<close>

text \<open>The listeners registered for an event name, as \<open>broadcast\<close> reads them.\<close>

definition subscribers :: "world \<Rightarrow> string \<Rightarrow> listener list" where
  "subscribers w nm = get_default [] (map_of (listeners w) nm)"

text \<open>
  The world after the listeners \<open>ls\<close> have all been invoked on an event: each
  invocation is recorded, and each exception is logged.
\<close>

definition deliver :: "listener list \<Rightarrow> event \<Rightarrow> world \<Rightarrow> world" where
  "deliver ls ev w =
     w\<lparr>invocations := invocations w @ map (\<lambda>l. (listener_id l, ev)) ls,
       error_log := error_log w
         @ concat (map (\<lambda>l. case on_event l ev of
                               Inl exc \<Rightarrow> [(''eleanor.events'', exc)]
                             | Inr u \<Rightarrow> []) ls)\<rparr>"

text \<open>The world after an event has been emitted to its subscribers.\<close>

definition emitting :: "event \<Rightarrow> world \<Rightarrow> world" where
  "emitting ev w =
     deliver (subscribers w (event_name ev)) ev (w\<lparr>emitted := emitted w @ [ev]\<rparr>)"

text \<open>The world after the hooks \<open>hs\<close> have all been fired on a context.\<close>

definition run_hooks :: "hook list \<Rightarrow> (string \<times> detail) list \<Rightarrow> world \<Rightarrow> world" where
  "run_hooks hs ctx w =
     w\<lparr>hook_invocations := hook_invocations w @ map (\<lambda>fn. (hook_id fn, ctx)) hs,
       error_log := error_log w
         @ concat (map (\<lambda>fn. case on_fire fn ctx of
                               Inl exc \<Rightarrow> [(''eleanor.hooks'', exc)]
                             | Inr u \<Rightarrow> []) hs)\<rparr>"

text \<open>
  The event that \<open>emit_trace\<close> constructs, the test that an emitted event is the trace
  notification with a given message, and the number of such notifications so far.
\<close>

definition trace_event :: "string \<Rightarrow> (string \<times> detail) list option \<Rightarrow> event" where
  "trace_event message details_arg =
     \<lparr>event_name = ''telemetry.trace'',
      payload = [(''message'', DStr message), (''details'', DDict (get_default [] details_arg))],
      metadata = []\<rparr>"

definition is_trace :: "string \<Rightarrow> event \<Rightarrow> bool" where
  "is_trace message ev =
     (event_name ev = ''telemetry.trace''
      \<and> map_of (payload ev) ''message'' = Some (DStr message))"

definition traced :: "world \<Rightarrow> string \<Rightarrow> nat" where
  "traced w message = length (filter (is_trace message) (emitted w))"

text \<open>
  The outcome of the runner's call number \<open>k\<close> (counted from 0 over the life of the
  process) under the backend's per-attempt timeout.
\<close>

definition attempt_result ::
  "model_backend_config \<Rightarrow> runner \<Rightarrow> request \<Rightarrow> nat \<Rightarrow> pyexc + response" where
  "attempt_result cfg run request k = wait_for (timeout cfg) (run k (name cfg) request)"

definition retry_event :: "model_backend_config \<Rightarrow> pyexc \<Rightarrow> event" where
  "retry_event cfg exc =
     trace_event ''router.backend_retry''
       (Some [(''backend'', DStr (name cfg)), (''error'', DStr (str_exc exc))])"

text \<open>
  The routing rule of the specification, in its words: the condition map is not empty
  and is a subset of the request (every key present with an equal value); the first
  such rule wins, and the default model is used when there is none.
\<close>

definition spec_matches :: "routing_rule \<Rightarrow> request \<Rightarrow> bool" where
  "spec_matches rule request =
     (let cond = get_default [] (rule_if rule) in
      cond \<noteq> [] \<and> list_all (\<lambda>(key, val). map_of request key = Some val) cond)"

definition spec_route :: "router_config \<Rightarrow> request \<Rightarrow> string option" where
  "spec_route config request =
     (case find (\<lambda>rule. spec_matches rule request) (routing_rules config) of
        Some rule \<Rightarrow> use_model rule
      | None \<Rightarrow> Some (default_model config))"

text \<open>A rule with no \<open>None\<close>-valued condition and with a non-empty model name.\<close>

definition well_formed_rule :: "routing_rule \<Rightarrow> bool" where
  "well_formed_rule rule =
     (list_all (\<lambda>(key, val). val \<noteq> PyNone) (get_default [] (rule_if rule))
      \<and> use_model rule \<noteq> None \<and> use_model rule \<noteq> Some [])"

text \<open>
  The world in which \<open>EleanorRuntime.decide\<close> calls \<open>hybrid.deliberate\<close>: after the
  request has been logged, \<open>runtime.request.received\<close> emitted, the
  \<open>before_runtime_step\<close> hooks fired, the span started and \<open>active_tasks\<close> incremented.
\<close>

definition before_deliberation :: "string \<Rightarrow> request \<Rightarrow> world \<Rightarrow> world" where
  "before_deliberation req_id request w =
     snd (and_then (log_request req_id request) (\<lambda>u.
          and_then (emit ''runtime.request.received''
                      (Some [(''id'', DStr req_id), (''request'', DRequest request)]) None) (\<lambda>ev.
          and_then (fire ''before_runtime_step''
                      [(''id'', DStr req_id), (''request'', DRequest request)]) (\<lambda>u.
          and_then (start_span ''runtime.decide'' (Some [(''req_id'', DStr req_id)])) (\<lambda>sp.
          increment_active)))) w)"

section \<open>Concrete inputs\<close>

text \<open>A fresh process: no listeners, no hooks, nothing emitted.\<close>

definition world0 :: world where
  "world0 = \<lparr>listeners = [], hooks = [],
             rt_state = \<lparr>active_tasks = 0, completed_tasks = 0, failed_tasks = 0,
                         request_log = []\<rparr>,
             emitted = [], invocations = [], hook_invocations = [], error_log = [],
             runner_calls = 0\<rparr>"

text \<open>The mock backend of cli/commands/run\_cmd.py, with a chosen number of retries.\<close>

definition mock_backend :: "int \<Rightarrow> model_backend_config" where
  "mock_backend retries =
     \<lparr>name = ''mock'', endpoint = [], timeout = 10, max_retries = retries, enabled = True\<rparr>"

definition mock_config :: "int \<Rightarrow> router_config" where
  "mock_config retries =
     \<lparr>default_model = ''mock'', models = [(''mock'', mock_backend retries)],
      routing_rules = []\<rparr>"

definition done_response :: response where
  "done_response = \<lparr>content = [(''message'', PyStr ''done'')], embedding = None\<rparr>"

text \<open>Scenario S5: a runner that fails twice and then succeeds; and one that always fails.\<close>

definition flaky_runner :: runner where
  "flaky_runner k nm request =
     (if k < 2 then Finishes 1 (Inl (Exc OtherException ''backend down''))
      else Finishes 1 (Inr done_response))"

definition failing_runner :: runner where
  "failing_runner k nm request = Finishes 1 (Inl (Exc OtherException ''backend down''))"

text \<open>
  Router configurations with one rule each: a rule whose condition value is \<open>None\<close>,
  a rule whose model name is empty, and the rule of the module's docstring.
\<close>

definition none_rule_config :: router_config where
  "none_rule_config =
     \<lparr>default_model = ''mock'', models = [(''mock'', mock_backend 1)],
      routing_rules = [\<lparr>rule_if = Some [(''user'', PyNone)], use_model = Some ''special''\<rparr>]\<rparr>"

definition empty_model_config :: router_config where
  "empty_model_config =
     \<lparr>default_model = ''mock'', models = [(''mock'', mock_backend 1)],
      routing_rules = [\<lparr>rule_if = Some [(''task'', PyStr ''summarize'')],
                        use_model = Some []\<rparr>]\<rparr>"

definition summarize_config :: router_config where
  "summarize_config =
     \<lparr>default_model = ''mock'', models = [(''mock'', mock_backend 1)],
      routing_rules = [\<lparr>rule_if = Some [(''task'', PyStr ''summarize'')],
                        use_model = Some ''gpt-4''\<rparr>]\<rparr>"

text \<open>
  The fan-out result as the specification words it: every critic contributes one
  judgment, its own when it produced one and the zero-filled judgment when it failed
  in any way.
\<close>

fun spec_judgment :: "critic_call \<Rightarrow> critic_judgment" where
  "spec_judgment (Scheduled (Inr j)) = j"
| "spec_judgment (Scheduled (Inl exc)) = critic_error exc"
| "spec_judgment (CallRaises exc) = critic_error exc"

definition spec_fan_out :: "(string \<times> critic) list \<Rightarrow> request \<Rightarrow> response \<Rightarrow> judgments" where
  "spec_fan_out critics request backend_response =
     map (\<lambda>(nm, c). (nm, spec_judgment (c request backend_response))) critics"

text \<open>The critics all of whose calls schedule a task.\<close>

fun schedules :: "request \<Rightarrow> response \<Rightarrow> string \<times> critic \<Rightarrow> bool" where
  "schedules request backend_response (nm, c) =
     (case c request backend_response of CallRaises exc \<Rightarrow> False | Scheduled task \<Rightarrow> True)"

text \<open>
  Critics: one whose coroutine returns a judgment, one whose coroutine raises when
  awaited, and one whose \<open>evaluate\<close> is a plain method that checks the request and
  raises before it returns its coroutine.
\<close>

definition steady_critic :: critic where
  "steady_critic request backend_response =
     Scheduled (Inr \<lparr>score = Some 0.8, confidence = Some 0.9, violation = Some False,
                     rationale = Some ''ok''\<rparr>)"

definition broken_critic :: critic where
  "broken_critic request backend_response =
     Scheduled (Inl (Exc OtherException ''model offline''))"

definition guarded_critic :: critic where
  "guarded_critic request backend_response =
     (if map_of request ''prompt'' = None then CallRaises (Exc ValueError ''no prompt'')
      else Scheduled (Inr \<lparr>score = Some 0.8, confidence = Some 0.9,
                           violation = Some False, rationale = Some ''ok''\<rparr>))"

definition panel :: "(string \<times> critic) list" where
  "panel = [(''risk'', steady_critic), (''truth'', broken_critic),
            (''fairness'', steady_critic)]"

definition guarded_panel :: "(string \<times> critic) list" where
  "guarded_panel = [(''risk'', steady_critic), (''truth'', guarded_critic),
                    (''fairness'', steady_critic)]"

section \<open>Fusion: lexicographic precedence, uncertainty, scenario S2, empty judgments\<close>

lemma lex_violations_nonempty:
  "(nm, out) \<in> set critics \<Longrightarrow> nm \<in> RIGHTS_CRITICS \<Longrightarrow> violation out = Some True
   \<Longrightarrow> lex_violations critics \<noteq> []"
  by (induction critics) (auto split: if_splits)

text \<open>
  C1. Whenever some critic of the rights set reports \<open>violation = true\<close>, \<open>fuse\<close>
  returns \<open>lex_block = true\<close>, \<open>aggregate_score = 0\<close> and a non-empty list of
  violations, whatever the weights and the other critics' scores; and under a mode
  with \<open>enforce_lex\<close> the mode gate applied to the consensus decision returns
  \<open>{action: "reject", reason: "rights_violation", fusion: ...}\<close>.
\<close>

theorem lex_precedence:
  assumes "(nm, out) \<in> set critics" and "nm \<in> RIGHTS_CRITICS" and "violation out = Some True"
  shows "lex_block (fuse weights critics) \<and> aggregate_score (fuse weights critics) = 0
         \<and> violations (fuse weights critics) \<noteq> []
         \<and> (enforce_lex mode \<longrightarrow>
              (\<exists>fusion_result.
                 decide weights threshold precedent_engine critics vector = Inr fusion_result
                 \<and> apply_mode mode fusion_result
                     = Inr (Gate ''reject'' (Some ''rights_violation'') fusion_result)))"
proof -
  have ne: "lex_violations critics \<noteq> []"
    using assms by (rule lex_violations_nonempty)
  then have f: "fuse weights critics =
      \<lparr>aggregate_score = 0, violations = lex_violations critics, lex_block = True,
       details = critics\<rparr>"
    by (simp add: fuse_def)
  show ?thesis using ne f
    by (simp add: decide_def apply_mode_def)
qed

theorem lex_precedence_witness:
  "(''rights'', \<lparr>score = Some 0, confidence = Some 0.9, violation = Some True,
                  rationale = None\<rparr>) \<in> set scenario_S1
   \<and> ''rights'' \<in> RIGHTS_CRITICS
   \<and> lex_block (fuse DEFAULT_WEIGHTS scenario_S1)
   \<and> aggregate_score (fuse DEFAULT_WEIGHTS scenario_S1) = 0
   \<and> violations (fuse DEFAULT_WEIGHTS scenario_S1) \<noteq> []
   \<and> enforce_lex BALANCED
   \<and> (\<exists>fusion_result.
         decide DEFAULT_WEIGHTS 0.35 None scenario_S1 None = Inr fusion_result
         \<and> apply_mode BALANCED fusion_result
             = Inr (Gate ''reject'' (Some ''rights_violation'') fusion_result))"
  using lex_precedence
    [where nm = "''rights''"
       and out = "\<lparr>score = Some 0, confidence = Some 0.9, violation = Some True,
                    rationale = None\<rparr>"
       and critics = scenario_S1 and mode = BALANCED and weights = DEFAULT_WEIGHTS
       and threshold = "0.35" and precedent_engine = None and vector = None]
  by (simp add: scenario_S1_def RIGHTS_CRITICS_def BALANCED_def)

lemma collect_eq:
  "collect cs (a, b) =
     (a @ map (\<lambda>c. get_default 0 (score c)) cs, b @ map (\<lambda>c. get_default 0 (confidence c)) cs)"
  by (induction cs arbitrary: a b) auto

lemma foldl_min_Min: "foldl min (x::real) xs = Min (set (x # xs))"
proof -
  have "(\<lambda>a s. min s a) = (min :: real \<Rightarrow> real \<Rightarrow> real)"
    by (intro ext) (rule min.commute)
  then show ?thesis
    by (simp only: Min.set_eq_fold foldl_conv_fold)
qed

lemma py_min_nonempty: "xs \<noteq> [] \<Longrightarrow> py_min xs = Inr (Min (set xs))"
  by (cases xs) (simp_all add: foldl_min_Min)

text \<open>
  C2. On a non-empty judgments map \<open>compute\<close> returns, its uncertainty is the
  specification's \<open>min(1.0, 2.5 * dispersion + low_conf_penalty)\<close> on the critics'
  scores and confidences (a missing entry reading as 0), and it escalates exactly when
  that uncertainty reaches the threshold.
\<close>

theorem uncertainty_formula:
  assumes "critics \<noteq> []"
  shows "\<exists>u. compute threshold critics = Inr u
           \<and> uncertainty u =
               spec_uncertainty (map (\<lambda>(nm, c). get_default 0 (score c)) critics)
                                (map (\<lambda>(nm, c). get_default 0 (confidence c)) critics)
           \<and> (escalate u \<longleftrightarrow> uncertainty u \<ge> threshold)"
proof -
  let ?scores = "map (\<lambda>(nm, c). get_default 0 (score c)) critics"
  let ?confs = "map (\<lambda>(nm, c). get_default 0 (confidence c)) critics"
  have c: "collect (map snd critics) ([], []) = (?scores, ?confs)"
    by (simp add: collect_eq case_prod_unfold comp_def)
  have m: "py_min ?confs = Inr (Min (set ?confs))"
    using assms by (intro py_min_nonempty) simp
  have l: "(1 < length ?scores) = (2 \<le> length ?scores)" by auto
  show ?thesis
    unfolding compute_def c spec_uncertainty_def
    by (simp add: m l Let_def mult.commute)
qed

theorem uncertainty_formula_witness:
  "scenario_S2 \<noteq> []
   \<and> (\<exists>u. compute UncertaintyEngine_default_threshold scenario_S2 = Inr u
          \<and> uncertainty u =
              spec_uncertainty (map (\<lambda>(nm, c). get_default 0 (score c)) scenario_S2)
                               (map (\<lambda>(nm, c). get_default 0 (confidence c)) scenario_S2)
          \<and> (escalate u \<longleftrightarrow> uncertainty u \<ge> UncertaintyEngine_default_threshold))"
  using uncertainty_formula [of scenario_S2 UncertaintyEngine_default_threshold]
  by (simp add: scenario_S2_def)

lemma S2_compute:
  "compute UncertaintyEngine_default_threshold scenario_S2 =
     Inr \<lparr>uncertainty = 0, escalate = False, dispersion = 0, min_confidence = 0.9\<rparr>"
  by (simp add: compute_def scenario_S2_def pvariance_def
        UncertaintyEngine_default_threshold_def)

lemma S2_decide:
  "decide (CriticFusion_init None) UncertaintyEngine_default_threshold None scenario_S2 None =
     Inr \<lparr>action = ''proceed'', dec_confidence = 0.9, dec_uncertainty = 0,
          dec_lex_block = False,
          dec_rationale = ''Decision derived from Eleanor's multi-critic fusion logic.'',
          precedent = []\<rparr>"
  unfolding decide_def S2_compute
  by (simp add: fuse_def RIGHTS_CRITICS_def CriticFusion_init_def DEFAULT_WEIGHTS_def
        weighted_total_def scenario_S2_def)

text \<open>
  C5, as stated, fails: in scenario S2 the confidence of the decision is 0.9
  (\<open>0.0 * 0.9 + 4 * 0.25 * 0.9\<close>), at distance 0.225 from the stated 0.675.
\<close>

theorem scenario_S2_confidence_counterexample:
  "\<not> isl (decide (CriticFusion_init None) UncertaintyEngine_default_threshold None
            scenario_S2 None)
   \<and> \<bar>dec_confidence
         (projr (decide (CriticFusion_init None) UncertaintyEngine_default_threshold None
                   scenario_S2 None)) - 0.675\<bar> = 0.225"
  by (simp add: S2_decide)

text \<open>
  C5, amended. In scenario S2 under the default weights and threshold the decision has
  action \<open>proceed\<close>, confidence 0.9 and uncertainty 0, and the uncertainty engine does
  not escalate.
\<close>

theorem scenario_S2_decision:
  "map_sum id (\<lambda>d. (action d, dec_confidence d, dec_uncertainty d))
     (decide (CriticFusion_init None) UncertaintyEngine_default_threshold None
        scenario_S2 None)
     = Inr (''proceed'', 0.9, 0)
   \<and> map_sum id escalate (compute UncertaintyEngine_default_threshold scenario_S2)
       = Inr False"
  by (simp add: S2_decide S2_compute)

text \<open>
  C10. On the empty judgments map \<open>compute\<close> raises the \<open>ValueError\<close> of \<open>min\<close> on an
  empty sequence instead of returning an outcome, and so does \<open>decide\<close> (the empty
  map has no lexicographic block). The empty map is the only one on which either of
  them raises: at least one judgment is the precondition of every fusion result.
\<close>

theorem empty_judgments_raise:
  "isl (compute threshold [])
   \<and> exc_kind_of (projl (compute threshold [])) = ValueError
   \<and> isl (decide weights threshold precedent_engine [] vector)
   \<and> exc_kind_of (projl (decide weights threshold precedent_engine [] vector)) = ValueError
   \<and> (isl (compute threshold critics) \<longleftrightarrow> critics = [])
   \<and> (isl (decide weights threshold precedent_engine critics vector) \<longleftrightarrow> critics = [])"
proof -
  have a: "compute threshold [] = Inl (Exc ValueError ''min() arg is an empty sequence'')"
    by (simp add: compute_def)
  have b: "decide weights threshold precedent_engine [] vector
       = Inl (Exc ValueError ''min() arg is an empty sequence'')"
    by (simp add: decide_def fuse_def a)
  have c: "isl (compute threshold critics) \<longleftrightarrow> critics = []"
  proof (cases "critics = []")
    case True then show ?thesis using a by simp
  next
    case False
    then obtain x xs where "critics = x # xs" by (cases critics) auto
    then show ?thesis
      by (auto simp add: compute_def collect_eq Let_def split: prod.splits sum.splits)
  qed
  have d: "isl (decide weights threshold precedent_engine critics vector) \<longleftrightarrow> critics = []"
  proof (cases "critics = []")
    case True then show ?thesis using b by simp
  next
    case False
    with c obtain u where "compute threshold critics = Inr u"
      by (cases "compute threshold critics") auto
    then show ?thesis using False
      by (simp add: decide_def Let_def)
  qed
  show ?thesis using a b c d by simp
qed

section \<open>The event bus, hooks and telemetry never raise\<close>

text \<open>
  Each of the following equations gives the outcome of a call as a value: the call
  returns (\<open>Inr\<close>), and the world it leaves is the one in which every registered
  listener, or hook, has been invoked.
\<close>

lemma safe_invoke_eq: "safe_invoke l ev w = (Inr (), deliver [l] ev w)"
  by (cases "on_event l ev")
     (simp_all add: safe_invoke_def try_except_def log_error_def deliver_def)

lemma deliver_Cons: "deliver ls ev (deliver [l] ev w) = deliver (l # ls) ev w"
  by (simp add: deliver_def)

lemma deliver_Nil: "deliver [] ev w = w"
  by (simp add: deliver_def)

lemma gather_listeners:
  "gather (map (\<lambda>l. safe_invoke l ev) ls) w = (replicate (length ls) (Inr ()), deliver ls ev w)"
proof (induction ls arbitrary: w)
  case Nil
  then show ?case by (simp add: deliver_Nil)
next
  case (Cons l ls)
  then show ?case by (simp add: safe_invoke_eq deliver_Cons)
qed

lemma broadcast_eq: "broadcast ev w = (Inr (), deliver (subscribers w (event_name ev)) ev w)"
  by (simp add: broadcast_def subscribers_def Let_def gather_listeners deliver_Nil)

lemma emit_eq:
  "emit nm pl md w =
     (Inr \<lparr>event_name = nm, payload = get_default [] pl, metadata = get_default [] md\<rparr>,
      emitting \<lparr>event_name = nm, payload = get_default [] pl, metadata = get_default [] md\<rparr> w)"
  by (simp add: emit_def Let_def and_then_def returns_def broadcast_eq subscribers_def
        emitting_def)

lemma safe_hook_eq: "safe_hook fn ctx w = (Inr (), run_hooks [fn] ctx w)"
  by (cases "on_fire fn ctx")
     (simp_all add: safe_hook_def try_except_def log_error_def run_hooks_def)

lemma run_hooks_Cons: "run_hooks hs ctx (run_hooks [fn] ctx w) = run_hooks (fn # hs) ctx w"
  by (simp add: run_hooks_def)

lemma run_hooks_Nil: "run_hooks [] ctx w = w"
  by (simp add: run_hooks_def)

lemma gather_hooks:
  "gather (map (\<lambda>fn. safe_hook fn ctx) hs) w = (replicate (length hs) (Inr ()), run_hooks hs ctx w)"
proof (induction hs arbitrary: w)
  case Nil
  then show ?case by (simp add: run_hooks_Nil)
next
  case (Cons fn hs)
  then show ?case by (simp add: safe_hook_eq run_hooks_Cons)
qed

lemma fire_eq:
  "fire hook_name ctx w = (Inr (), run_hooks (get_default [] (map_of (hooks w) hook_name)) ctx w)"
  by (simp add: fire_def Let_def gather_hooks run_hooks_Nil)

lemma emitting_fields:
  "emitted (emitting ev w) = emitted w @ [ev]"
  "runner_calls (emitting ev w) = runner_calls w"
  "listeners (emitting ev w) = listeners w"
  "hooks (emitting ev w) = hooks w"
  "rt_state (emitting ev w) = rt_state w"
  "invocations (emitting ev w)
     = invocations w @ map (\<lambda>l. (listener_id l, ev)) (subscribers w (event_name ev))"
  by (simp_all add: emitting_def deliver_def subscribers_def)

lemma traced_emitting:
  "traced (emitting ev w) m = traced w m + (if is_trace m ev then 1 else 0)"
  by (simp add: traced_def emitting_fields)

lemma is_trace_trace_event: "is_trace m (trace_event m' d) = (m' = m)"
  by (simp add: is_trace_def trace_event_def)

lemma emit_trace_eq:
  "emit_trace message d w = (Inr (), emitting (trace_event message d) w)"
  by (simp add: emit_trace_def and_then_def emit_eq returns_def trace_event_def)

lemma start_span_eq:
  "start_span nm context w =
     (Inr \<lparr>span_name = nm, span_context = get_default [] context\<rparr>,
      emitting \<lparr>event_name = ''telemetry.span.start'',
                payload = [(''name'', DStr nm), (''context'', DDict (get_default [] context))],
                metadata = []\<rparr> w)"
  by (simp add: start_span_def and_then_def emit_eq returns_def)

lemma end_span_eq:
  "end_span sp result w =
     (Inr (),
      emitting \<lparr>event_name = ''telemetry.span.end'',
                payload = [(''name'', DStr (span_name sp)), (''result_summary'', result)],
                metadata = []\<rparr> w)"
  by (simp add: end_span_def and_then_def emit_eq returns_def)

text \<open>
  C9. For every event, every world and whatever the listeners do, \<open>broadcast\<close> returns
  normally, and when it returns every listener registered for the event's name has
  been invoked exactly once, in the order of registration of the model, the raising
  ones included; each exception raised is logged and none reaches the caller. \<open>emit\<close>
  returns the event it constructed (\<open>payload or {}\<close>, \<open>metadata or {}\<close>) after the same
  invocations.
\<close>

theorem listener_isolation:
  "(\<exists>w'. broadcast ev w = (Inr (), w')
          \<and> invocations w'
              = invocations w @ map (\<lambda>l. (listener_id l, ev)) (subscribers w (event_name ev))
          \<and> error_log w'
              = error_log w
                @ concat (map (\<lambda>l. case on_event l ev of
                                      Inl exc \<Rightarrow> [(''eleanor.events'', exc)]
                                    | Inr u \<Rightarrow> [])
                            (subscribers w (event_name ev))))
   \<and> (\<exists>w'. emit nm pl md w
              = (Inr \<lparr>event_name = nm, payload = get_default [] pl,
                      metadata = get_default [] md\<rparr>, w')
            \<and> invocations w'
                = invocations w
                  @ map (\<lambda>l. (listener_id l,
                               \<lparr>event_name = nm, payload = get_default [] pl,
                                metadata = get_default [] md\<rparr>))
                      (subscribers w nm))"
  by (simp add: broadcast_eq emit_eq emitting_fields deliver_def)

section \<open>The router's retry loop\<close>

text \<open>
  One iteration of the loop of \<open>_run_backend\<close>: a successful attempt returns; a failed
  one emits the \<open>router.backend_retry\<close> trace and goes on with one iteration less.
\<close>

lemma loop_step_ok:
  "attempt_result cfg run request (runner_calls w) = Inr resp \<Longrightarrow>
   run_backend_loop (Suc n) cfg run request prev w
     = (Inr resp, w\<lparr>runner_calls := Suc (runner_calls w)\<rparr>)"
  by (simp add: run_backend_loop.simps try_except_def call_runner_def attempt_result_def)

lemma loop_step_fail:
  "attempt_result cfg run request (runner_calls w) = Inl exc \<Longrightarrow>
   run_backend_loop (Suc n) cfg run request prev w
     = run_backend_loop n cfg run request (Some exc)
         (emitting (retry_event cfg exc) (w\<lparr>runner_calls := Suc (runner_calls w)\<rparr>))"
  by (simp add: run_backend_loop.simps try_except_def call_runner_def attempt_result_def
        and_then_def emit_trace_eq retry_event_def)

lemma traced_runner_calls: "traced (w\<lparr>runner_calls := k\<rparr>) m = traced w m"
  by (simp add: traced_def)

lemma after_retry_fields:
  "runner_calls (emitting (retry_event cfg exc) (w\<lparr>runner_calls := Suc (runner_calls w)\<rparr>))
     = Suc (runner_calls w)"
  "traced (emitting (retry_event cfg exc) (w\<lparr>runner_calls := Suc (runner_calls w)\<rparr>)) m
     = traced w m + (if m = ''router.backend_retry'' then 1 else 0)"
  by (auto simp add: emitting_fields traced_emitting traced_runner_calls retry_event_def
        is_trace_trace_event)

lemma loop_bound:
  "runner_calls (snd (run_backend_loop n cfg run request prev w)) \<le> runner_calls w + n"
proof (induction n arbitrary: w prev)
  case 0
  then show ?case by (simp add: run_backend_loop.simps raises_def)
next
  case (Suc n)
  show ?case
  proof (cases "attempt_result cfg run request (runner_calls w)")
    case (Inr resp)
    then show ?thesis by (simp add: loop_step_ok)
  next
    case (Inl exc)
    let ?w1 = "emitting (retry_event cfg exc) (w\<lparr>runner_calls := Suc (runner_calls w)\<rparr>)"
    have "runner_calls (snd (run_backend_loop n cfg run request (Some exc) ?w1))
            \<le> runner_calls ?w1 + n"
      by (rule Suc.IH)
    then show ?thesis by (simp add: loop_step_fail [OF Inl] after_retry_fields)
  qed
qed

lemma loop_success:
  assumes "K < n"
    and "\<forall>i<K. isl (attempt_result cfg run request (runner_calls w + i))"
    and "attempt_result cfg run request (runner_calls w + K) = Inr resp"
  shows "\<exists>w'. run_backend_loop n cfg run request prev w = (Inr resp, w')
           \<and> runner_calls w' = runner_calls w + K + 1
           \<and> (\<forall>m. traced w' m
                     = traced w m + (if m = ''router.backend_retry'' then K else 0))"
  using assms
proof (induction K arbitrary: n w prev)
  case 0
  then obtain n' where n: "n = Suc n'" by (cases n) auto
  from 0 have "attempt_result cfg run request (runner_calls w) = Inr resp" by simp
  then show ?case unfolding n by (simp add: loop_step_ok traced_runner_calls)
next
  case (Suc K)
  then obtain n' where n: "n = Suc n'" by (cases n) auto
  from Suc.prems(2) have "isl (attempt_result cfg run request (runner_calls w + 0))"
    by blast
  then obtain exc where exc: "attempt_result cfg run request (runner_calls w) = Inl exc"
    by (cases "attempt_result cfg run request (runner_calls w)") auto
  let ?w1 = "emitting (retry_event cfg exc) (w\<lparr>runner_calls := Suc (runner_calls w)\<rparr>)"
  have rc: "runner_calls ?w1 = Suc (runner_calls w)" by (rule after_retry_fields)
  have a: "K < n'" using Suc.prems(1) n by simp
  have b: "\<forall>i<K. isl (attempt_result cfg run request (runner_calls ?w1 + i))"
  proof (intro allI impI)
    fix i assume "i < K"
    then have "Suc i < Suc K" by simp
    with Suc.prems(2) have "isl (attempt_result cfg run request (runner_calls w + Suc i))"
      by blast
    then show "isl (attempt_result cfg run request (runner_calls ?w1 + i))"
      by (simp add: rc)
  qed
  have c: "attempt_result cfg run request (runner_calls ?w1 + K) = Inr resp"
    using Suc.prems(3) by (simp add: rc)
  from Suc.IH [OF a b c, of "Some exc"] obtain w' where
    w': "run_backend_loop n' cfg run request (Some exc) ?w1 = (Inr resp, w')"
        "runner_calls w' = runner_calls ?w1 + K + 1"
        "\<forall>m. traced w' m = traced ?w1 m + (if m = ''router.backend_retry'' then K else 0)"
    by blast
  show ?case unfolding n loop_step_fail [OF exc]
    using w' by (simp add: after_retry_fields)
qed

lemma loop_failure:
  assumes "\<forall>i<n. isl (attempt_result cfg run request (runner_calls w + i))"
  shows "\<exists>w'. run_backend_loop n cfg run request prev w
                = (Inl (failed_after cfg
                          (if n = 0 then prev
                           else Some (projl (attempt_result cfg run request
                                               (runner_calls w + n - 1))))), w')
           \<and> runner_calls w' = runner_calls w + n
           \<and> (\<forall>m. traced w' m
                     = traced w m + (if m = ''router.backend_retry'' then n else 0))"
  using assms
proof (induction n arbitrary: w prev)
  case 0
  then show ?case by (simp add: run_backend_loop.simps raises_def)
next
  case (Suc n)
  from Suc.prems have "isl (attempt_result cfg run request (runner_calls w + 0))"
    by blast
  then obtain exc where exc: "attempt_result cfg run request (runner_calls w) = Inl exc"
    by (cases "attempt_result cfg run request (runner_calls w)") auto
  let ?w1 = "emitting (retry_event cfg exc) (w\<lparr>runner_calls := Suc (runner_calls w)\<rparr>)"
  have rc: "runner_calls ?w1 = Suc (runner_calls w)" by (rule after_retry_fields)
  have b: "\<forall>i<n. isl (attempt_result cfg run request (runner_calls ?w1 + i))"
  proof (intro allI impI)
    fix i assume "i < n"
    then have "Suc i < Suc n" by simp
    with Suc.prems have "isl (attempt_result cfg run request (runner_calls w + Suc i))"
      by blast
    then show "isl (attempt_result cfg run request (runner_calls ?w1 + i))"
      by (simp add: rc)
  qed
  from Suc.IH [OF b, of "Some exc"] obtain w' where
    w': "run_backend_loop n cfg run request (Some exc) ?w1
           = (Inl (failed_after cfg
                     (if n = 0 then Some exc
                      else Some (projl (attempt_result cfg run request
                                          (runner_calls ?w1 + n - 1))))), w')"
        "runner_calls w' = runner_calls ?w1 + n"
        "\<forall>m. traced w' m = traced ?w1 m + (if m = ''router.backend_retry'' then n else 0)"
    by blast
  have pl: "(if n = 0 then Some exc
             else Some (projl (attempt_result cfg run request (runner_calls ?w1 + n - 1))))
            = Some (projl (attempt_result cfg run request (runner_calls w + Suc n - 1)))"
    using exc by (cases n) (simp_all add: rc)
  show ?case unfolding loop_step_fail [OF exc]
    using w' unfolding pl by (simp add: after_retry_fields)
qed

lemma is_trace_span:
  "is_trace m \<lparr>event_name = ''telemetry.span.start'', payload = p, metadata = md\<rparr> = False"
  "is_trace m \<lparr>event_name = ''telemetry.span.end'', payload = p, metadata = md\<rparr> = False"
  by (simp_all add: is_trace_def)

lemma traced_error_log: "traced (w\<lparr>error_log := lg\<rparr>) m = traced w m"
  by (simp add: traced_def)

lemma failed_after_kind: "exc_kind_of (failed_after cfg prev) = RouterError"
  by (simp add: failed_after_def)

lemma execute_success_effect:
  assumes backend: "get_backend config (route config request) = Inr cfg"
    and en: "enabled cfg"
    and k: "K < nat (max_retries cfg + 1)"
    and fails: "\<forall>i<K. isl (attempt_result cfg run request (runner_calls w + i))"
    and ok: "attempt_result cfg run request (runner_calls w + K) = Inr resp"
  shows "\<exists>w'. execute config request run ctx w = (Inr resp, w')
           \<and> runner_calls w' = runner_calls w + K + 1
           \<and> (\<forall>m. traced w' m
                     = traced w m + (if m = ''router.backend_retry'' then K else 0))"
proof -
  define W0 where "W0 = emitting \<lparr>event_name = ''telemetry.span.start'',
                payload = [(''name'', DStr ''router.execute''),
                           (''context'', DDict (get_default [] ctx))],
                metadata = []\<rparr> w"
  have rc0: "runner_calls W0 = runner_calls w"
    by (simp add: W0_def emitting_fields)
  have tr0: "traced W0 m = traced w m" for m
    by (simp add: W0_def traced_emitting is_trace_span)
  from loop_success [of K "nat (max_retries cfg + 1)" cfg run request W0 resp None]
    k fails ok
  obtain w1 where
    w1: "run_backend_loop (nat (max_retries cfg + 1)) cfg run request None W0 = (Inr resp, w1)"
        "runner_calls w1 = runner_calls W0 + K + 1"
        "\<forall>m. traced w1 m = traced W0 m + (if m = ''router.backend_retry'' then K else 0)"
    unfolding rc0 by blast
  have "execute config request run ctx w =
          (Inr resp, emitting \<lparr>event_name = ''telemetry.span.end'',
                payload = [(''name'', DStr ''router.execute''),
                           (''result_summary'', DResponse resp)],
                metadata = []\<rparr> w1)"
    using backend en w1(1)
    by (simp add: execute_def and_then_def try_except_def start_span_eq end_span_eq
          run_backend_def returns_def W0_def [symmetric])
  then show ?thesis
    using w1(2,3) by (simp add: emitting_fields traced_emitting is_trace_span rc0 tr0)
qed

lemma execute_failure_effect:
  assumes backend: "get_backend config (route config request) = Inr cfg"
    and en: "enabled cfg"
    and fails: "\<forall>i<nat (max_retries cfg + 1).
                  isl (attempt_result cfg run request (runner_calls w + i))"
  shows "\<exists>w'. execute config request run ctx w
                = (Inl (Exc RouterError
                          (str_exc (failed_after cfg
                             (if nat (max_retries cfg + 1) = 0 then None
                              else Some (projl (attempt_result cfg run request
                                      (runner_calls w + nat (max_retries cfg + 1) - 1))))))),
                   w')
           \<and> runner_calls w' = runner_calls w + nat (max_retries cfg + 1)
           \<and> (\<forall>m. traced w' m
                     = traced w m
                       + (if m = ''router.backend_retry'' then nat (max_retries cfg + 1) else 0)
                       + (if m = ''router.error'' then 1 else 0))"
proof -
  define W0 where "W0 = emitting \<lparr>event_name = ''telemetry.span.start'',
                payload = [(''name'', DStr ''router.execute''),
                           (''context'', DDict (get_default [] ctx))],
                metadata = []\<rparr> w"
  define n where "n = nat (max_retries cfg + 1)"
  have rc0: "runner_calls W0 = runner_calls w"
    by (simp add: W0_def emitting_fields)
  have tr0: "traced W0 m = traced w m" for m
    by (simp add: W0_def traced_emitting is_trace_span)
  define cause where
    "cause = (if n = 0 then None
              else Some (projl (attempt_result cfg run request (runner_calls w + n - 1))))"
  from loop_failure [of n cfg run request W0 None] fails
  obtain w1 where
    w1: "run_backend_loop n cfg run request None W0 = (Inl (failed_after cfg cause), w1)"
        "runner_calls w1 = runner_calls W0 + n"
        "\<forall>m. traced w1 m = traced W0 m + (if m = ''router.backend_retry'' then n else 0)"
    unfolding rc0 n_def cause_def by blast
  have "\<exists>w'. execute config request run ctx w
               = (Inl (Exc RouterError (str_exc (failed_after cfg cause))), w')
             \<and> runner_calls w' = runner_calls w1
             \<and> (\<forall>m. traced w' m = traced w1 m + (if m = ''router.error'' then 1 else 0))"
    using backend en w1(1)
    by (simp add: execute_def and_then_def try_except_def start_span_eq end_span_eq
          run_backend_def returns_def raises_def W0_def [symmetric] n_def [symmetric]
          failed_after_kind log_error_def emit_trace_eq emitting_fields traced_emitting
          is_trace_span is_trace_trace_event traced_error_log)
  then show ?thesis
    using w1(2,3) unfolding n_def [symmetric] cause_def [symmetric]
    by (auto simp add: rc0 tr0)
qed

lemma execute_calls_bound:
  assumes backend: "get_backend config (route config request) = Inr cfg"
  shows "runner_calls (snd (execute config request run ctx w))
           \<le> runner_calls w + nat (max_retries cfg + 1)"
proof -
  define W0 where "W0 = emitting \<lparr>event_name = ''telemetry.span.start'',
                payload = [(''name'', DStr ''router.execute''),
                           (''context'', DDict (get_default [] ctx))],
                metadata = []\<rparr> w"
  have rc0: "runner_calls W0 = runner_calls w"
    by (simp add: W0_def emitting_fields)
  obtain r w1 where
    r: "run_backend_loop (nat (max_retries cfg + 1)) cfg run request None W0 = (r, w1)"
    by (cases "run_backend_loop (nat (max_retries cfg + 1)) cfg run request None W0")
  from loop_bound [of "nat (max_retries cfg + 1)" cfg run request None W0]
  have b: "runner_calls w1 \<le> runner_calls w + nat (max_retries cfg + 1)"
    by (simp add: r rc0)
  show ?thesis
  proof (cases "enabled cfg")
    case False
    then show ?thesis using backend
      by (simp add: execute_def and_then_def try_except_def start_span_eq end_span_eq
            returns_def raises_def emit_trace_eq emitting_fields)
  next
    case True
    then show ?thesis using backend r b
      by (cases r)
         (simp_all add: execute_def and_then_def try_except_def start_span_eq end_span_eq
            run_backend_def returns_def raises_def W0_def [symmetric] log_error_def
            emit_trace_eq emitting_fields)
  qed
qed

text \<open>
  C4. For a routed backend that is enabled and has \<open>max_retries \<ge> 0\<close> (the invariant of
  the specification's BackendConfig): \<open>execute\<close> calls the runner at most
  \<open>max_retries + 1\<close> times, each call under the backend's timeout (an attempt that
  does not finish before it counts as a failure, see \<open>attempt_result\<close>); if the first
  \<open>K < max_retries + 1\<close> attempts fail and the next one succeeds, \<open>execute\<close> returns
  that response after \<open>K + 1\<close> calls; and if all \<open>max_retries + 1\<close> attempts fail,
  \<open>execute\<close> raises a \<open>RouterError\<close> whose message ends with the \<open>str\<close> of the last
  attempt's exception.
\<close>

theorem router_retry_semantics:
  assumes backend: "get_backend config (route config request) = Inr cfg"
    and en: "enabled cfg"
    and mr: "0 \<le> max_retries cfg"
  shows "int (runner_calls (snd (execute config request run ctx w)) - runner_calls w)
           \<le> max_retries cfg + 1
         \<and> (int K < max_retries cfg + 1
              \<and> (\<forall>i<K. isl (attempt_result cfg run request (runner_calls w + i)))
              \<and> attempt_result cfg run request (runner_calls w + K) = Inr resp
            \<longrightarrow> fst (execute config request run ctx w) = Inr resp
                \<and> runner_calls (snd (execute config request run ctx w))
                    = runner_calls w + K + 1)
         \<and> ((\<forall>i. int i < max_retries cfg + 1
                    \<longrightarrow> isl (attempt_result cfg run' request (runner_calls w + i)))
            \<longrightarrow> fst (execute config request run' ctx w)
                  = Inl (Exc RouterError
                           (''Backend '' @ [CHR 39] @ name cfg @ [CHR 39] @ '' failed after ''
                            @ str_int (max_retries cfg) @ '' retries: ''
                            @ str_exc (projl (attempt_result cfg run' request
                                               (runner_calls w + nat (max_retries cfg))))))
                \<and> runner_calls (snd (execute config request run' ctx w))
                    = runner_calls w + nat (max_retries cfg) + 1)"
proof (intro conjI impI)
  from execute_calls_bound [OF backend, where run = run and ctx = ctx and w = w] mr
  show "int (runner_calls (snd (execute config request run ctx w)) - runner_calls w)
           \<le> max_retries cfg + 1"
    by linarith
next
  assume h: "int K < max_retries cfg + 1
              \<and> (\<forall>i<K. isl (attempt_result cfg run request (runner_calls w + i)))
              \<and> attempt_result cfg run request (runner_calls w + K) = Inr resp"
  then have k: "K < nat (max_retries cfg + 1)" by linarith
  from execute_success_effect [OF backend en k, where run = run and w = w and resp = resp and ctx = ctx] h
  obtain w' where "execute config request run ctx w = (Inr resp, w')"
    "runner_calls w' = runner_calls w + K + 1"
    by blast
  then show "fst (execute config request run ctx w) = Inr resp"
    and "runner_calls (snd (execute config request run ctx w)) = runner_calls w + K + 1"
    by simp_all
next
  assume h: "\<forall>i. int i < max_retries cfg + 1
                    \<longrightarrow> isl (attempt_result cfg run' request (runner_calls w + i))"
  have n: "nat (max_retries cfg + 1) = Suc (nat (max_retries cfg))"
    using mr by linarith
  have fails: "\<forall>i<nat (max_retries cfg + 1).
                  isl (attempt_result cfg run' request (runner_calls w + i))"
    using h by (simp add: nat_less_iff)
  from execute_failure_effect [OF backend en fails, where ctx = ctx]
  obtain w' where w': "execute config request run' ctx w
                = (Inl (Exc RouterError
                          (str_exc (failed_after cfg
                             (if nat (max_retries cfg + 1) = 0 then None
                              else Some (projl (attempt_result cfg run' request
                                      (runner_calls w + nat (max_retries cfg + 1) - 1))))))),
                   w')"
    "runner_calls w' = runner_calls w + nat (max_retries cfg + 1)"
    by blast
  show "fst (execute config request run' ctx w)
                  = Inl (Exc RouterError
                           (''Backend '' @ [CHR 39] @ name cfg @ [CHR 39] @ '' failed after ''
                            @ str_int (max_retries cfg) @ '' retries: ''
                            @ str_exc (projl (attempt_result cfg run' request
                                               (runner_calls w + nat (max_retries cfg))))))"
    unfolding w'(1) by (simp add: n failed_after_def)
  show "runner_calls (snd (execute config request run' ctx w))
                    = runner_calls w + nat (max_retries cfg) + 1"
    unfolding w'(1) using w'(2) by (simp add: n)
qed

theorem router_retry_semantics_witness:
  "get_backend (mock_config 2) (route (mock_config 2) []) = Inr (mock_backend 2)
   \<and> enabled (mock_backend 2) \<and> 0 \<le> max_retries (mock_backend 2)
   \<and> int (runner_calls (snd (execute (mock_config 2) [] flaky_runner None world0))
          - runner_calls world0) \<le> max_retries (mock_backend 2) + 1
   \<and> int 2 < max_retries (mock_backend 2) + 1
   \<and> isl (attempt_result (mock_backend 2) flaky_runner [] 0)
   \<and> isl (attempt_result (mock_backend 2) flaky_runner [] 1)
   \<and> attempt_result (mock_backend 2) flaky_runner [] 2 = Inr done_response
   \<and> fst (execute (mock_config 2) [] flaky_runner None world0) = Inr done_response
   \<and> runner_calls (snd (execute (mock_config 2) [] flaky_runner None world0)) = 3
   \<and> isl (attempt_result (mock_backend 2) failing_runner [] 0)
   \<and> isl (attempt_result (mock_backend 2) failing_runner [] 1)
   \<and> isl (attempt_result (mock_backend 2) failing_runner [] 2)
   \<and> fst (execute (mock_config 2) [] failing_runner None world0)
       = Inl (Exc RouterError
                (''Backend '' @ [CHR 39] @ ''mock'' @ [CHR 39]
                 @ '' failed after 2 retries: backend down''))
   \<and> runner_calls (snd (execute (mock_config 2) [] failing_runner None world0)) = 3"
proof -
  have b: "get_backend (mock_config 2) (route (mock_config 2) []) = Inr (mock_backend 2)"
    by (simp add: get_backend_def route_def mock_config_def)
  have en: "enabled (mock_backend 2)" and mr: "0 \<le> max_retries (mock_backend 2)"
    by (simp_all add: mock_backend_def)
  have rc: "runner_calls world0 = 0" by (simp add: world0_def)
  have fl: "attempt_result (mock_backend 2) flaky_runner [] i
              = (if i < 2 then Inl (Exc OtherException ''backend down'') else Inr done_response)"
    for i
    by (simp add: attempt_result_def flaky_runner_def mock_backend_def)
  have fa: "attempt_result (mock_backend 2) failing_runner [] i
              = Inl (Exc OtherException ''backend down'')" for i
    by (simp add: attempt_result_def failing_runner_def mock_backend_def)
  have s2: "str_int 2 = ''2''"
    by (simp add: str_int_def str_nat.simps)
  note t = router_retry_semantics [OF b en mr, where run = flaky_runner
      and run' = failing_runner and ctx = None and w = world0 and K = 2
      and resp = done_response]
  have h1: "int 2 < max_retries (mock_backend 2) + 1
              \<and> (\<forall>i<2. isl (attempt_result (mock_backend 2) flaky_runner []
                                (runner_calls world0 + i)))
              \<and> attempt_result (mock_backend 2) flaky_runner [] (runner_calls world0 + 2)
                  = Inr done_response"
    by (simp add: fl rc mr) (simp add: mock_backend_def)
  have h2: "\<forall>i. int i < max_retries (mock_backend 2) + 1
                    \<longrightarrow> isl (attempt_result (mock_backend 2) failing_runner []
                              (runner_calls world0 + i))"
    by (simp add: fa)
  have v: "max_retries (mock_backend 2) = 2" "name (mock_backend 2) = ''mock''"
    by (simp_all add: mock_backend_def)
  from t h1 h2 show ?thesis
    by (simp add: b en fl fa rc s2 v)
qed

text \<open>
  C6, at a failing input. With \<open>max_retries = 1\<close> and a runner that fails on both
  attempts, \<open>execute\<close> raises, and the trace \<open>router.backend_retry\<close> has been emitted
  twice: once for the non-terminal failure and once more for the terminal one.
\<close>

theorem retry_emitted_on_terminal_failure:
  "max_retries (mock_backend 1) = 1
   \<and> isl (fst (execute (mock_config 1) [] failing_runner None world0))
   \<and> traced world0 ''router.backend_retry'' = 0
   \<and> traced (snd (execute (mock_config 1) [] failing_runner None world0))
        ''router.backend_retry'' = 2"
proof -
  have b: "get_backend (mock_config 1) (route (mock_config 1) []) = Inr (mock_backend 1)"
    by (simp add: get_backend_def route_def mock_config_def)
  have en: "enabled (mock_backend 1)" by (simp add: mock_backend_def)
  have fa: "\<forall>i<nat (max_retries (mock_backend 1) + 1).
              isl (attempt_result (mock_backend 1) failing_runner []
                     (runner_calls world0 + i))"
    by (simp add: attempt_result_def failing_runner_def mock_backend_def)
  from execute_failure_effect [OF b en fa, where ctx = None]
  show ?thesis
    by (auto simp add: mock_backend_def traced_def world0_def)
qed

section \<open>Routing rules\<close>

lemma cond_items_hold_list_all:
  "cond_items_hold cond request = list_all (\<lambda>(key, val). dict_get request key = val) cond"
  by (induction cond) (auto split: if_splits)

lemma evaluate_rules_find:
  "evaluate_rules rules request =
     (case find (\<lambda>rule. rule_matches rule request) rules of
        None \<Rightarrow> None
      | Some rule \<Rightarrow> use_model rule)"
  by (induction rules) auto

lemma dict_get_not_None:
  "val \<noteq> PyNone \<Longrightarrow> (dict_get request key = val) = (map_of request key = Some val)"
  by (cases "map_of request key") (auto simp add: dict_get_def)

lemma list_all_get_subset:
  "list_all (\<lambda>(key, val). val \<noteq> PyNone) cond \<Longrightarrow>
   list_all (\<lambda>(key, val). dict_get request key = val) cond
     = list_all (\<lambda>(key, val). map_of request key = Some val) cond"
proof (induction cond)
  case Nil
  then show ?case by simp
next
  case (Cons kv cond)
  obtain key val where kv: "kv = (key, val)" by (cases kv)
  with Cons.prems have nn: "val \<noteq> PyNone"
    and rest: "list_all (\<lambda>(key, val). val \<noteq> PyNone) cond"
    by simp_all
  show ?case unfolding kv
    by (simp add: dict_get_not_None [OF nn] Cons.IH [OF rest])
qed

lemma matches_spec_matches:
  assumes "list_all (\<lambda>(key, val). val \<noteq> PyNone) (get_default [] (rule_if rule))"
  shows "rule_matches rule request = spec_matches rule request"
  using list_all_get_subset [OF assms, of request]
  by (simp add: rule_matches_def spec_matches_def Let_def cond_items_hold_list_all)

lemma find_cong_set:
  "(\<And>x. x \<in> set xs \<Longrightarrow> P x = Q x) \<Longrightarrow> find P xs = find Q xs"
  by (induction xs) auto

text \<open>
  C7, amended. The router returns the model of the first rule, in declared order, that
  matches, where a rule matches when its condition map is not empty and every entry
  equals \<open>request.get(key)\<close>, a missing request key reading as \<open>None\<close>; the default
  model is returned when no rule matches and when the matching rule's model is
  missing or empty. A rule with an empty condition map never matches. When no rule
  has a \<open>None\<close>-valued condition or a missing or empty model, this is the
  specification's rule: the first rule whose condition map is a subset of the request.
\<close>

theorem route_selection:
  "route config request =
     (case find (\<lambda>rule. rule_matches rule request) (routing_rules config) of
        None \<Rightarrow> default_model config
      | Some rule \<Rightarrow>
          (case use_model rule of
             None \<Rightarrow> default_model config
           | Some model \<Rightarrow> if model = [] then default_model config else model))
   \<and> (rule_matches rule request \<longleftrightarrow>
        get_default [] (rule_if rule) \<noteq> []
        \<and> list_all (\<lambda>(key, val). dict_get request key = val) (get_default [] (rule_if rule)))
   \<and> (list_all well_formed_rule (routing_rules config)
        \<longrightarrow> Some (route config request) = spec_route config request)"
proof (intro conjI impI)
  show "route config request =
     (case find (\<lambda>rule. rule_matches rule request) (routing_rules config) of
        None \<Rightarrow> default_model config
      | Some rule \<Rightarrow>
          (case use_model rule of
             None \<Rightarrow> default_model config
           | Some model \<Rightarrow> if model = [] then default_model config else model))"
    by (simp add: route_def evaluate_rules_find split: option.splits)
  show "rule_matches rule request \<longleftrightarrow>
        get_default [] (rule_if rule) \<noteq> []
        \<and> list_all (\<lambda>(key, val). dict_get request key = val) (get_default [] (rule_if rule))"
    by (simp add: rule_matches_def Let_def cond_items_hold_list_all)
next
  assume wf: "list_all well_formed_rule (routing_rules config)"
  have eq: "find (\<lambda>rule. rule_matches rule request) (routing_rules config)
          = find (\<lambda>rule. spec_matches rule request) (routing_rules config)"
    using wf
    by (intro find_cong_set matches_spec_matches)
       (simp add: list_all_iff well_formed_rule_def)
  show "Some (route config request) = spec_route config request"
  proof (cases "find (\<lambda>rule. spec_matches rule request) (routing_rules config)")
    case None
    then show ?thesis
      by (simp add: route_def evaluate_rules_find eq spec_route_def)
  next
    case (Some rule)
    then have "rule \<in> set (routing_rules config)"
      by (auto simp add: find_Some_iff)
    with wf have "well_formed_rule rule" by (simp add: list_all_iff)
    then show ?thesis using Some
      by (auto simp add: route_def evaluate_rules_find eq spec_route_def well_formed_rule_def)
  qed
qed

theorem route_selection_witness:
  "list_all well_formed_rule (routing_rules summarize_config)
   \<and> route summarize_config [(''task'', PyStr ''summarize'')] = ''gpt-4''
   \<and> Some (route summarize_config [(''task'', PyStr ''summarize'')])
       = spec_route summarize_config [(''task'', PyStr ''summarize'')]"
  using route_selection [where config = summarize_config
      and request = "[(''task'', PyStr ''summarize'')]"
      and rule = "\<lparr>rule_if = Some [(''task'', PyStr ''summarize'')],
                    use_model = Some ''gpt-4''\<rparr>"]
  by (simp add: summarize_config_def well_formed_rule_def rule_matches_def dict_get_def
        spec_route_def spec_matches_def)

text \<open>
  C7, as stated, fails. A rule whose condition is \<open>{"user": None}\<close> matches the empty
  request, of which its condition map is not a subset; and a matching rule whose model
  is the empty string does not give the selected model, the default does.
\<close>

theorem route_counterexample:
  "route none_rule_config [] = ''special''
   \<and> spec_route none_rule_config [] = Some ''mock''
   \<and> route empty_model_config [(''task'', PyStr ''summarize'')] = ''mock''
   \<and> spec_route empty_model_config [(''task'', PyStr ''summarize'')] = Some []"
  by (simp add: route_def none_rule_config_def empty_model_config_def spec_route_def
        rule_matches_def spec_matches_def dict_get_def)

section \<open>The critic fan-out\<close>

lemma create_tasks_scheduled:
  "list_all (schedules request resp) critics \<Longrightarrow>
   create_tasks critics request resp
     = Inr (map (\<lambda>(nm, c). (nm, case c request resp of
                                    Scheduled task \<Rightarrow> task
                                  | CallRaises exc \<Rightarrow> Inl exc)) critics)"
  by (induction critics) (auto split: critic_call.splits)

lemma create_tasks_raises:
  "\<not> list_all (schedules request resp) critics \<Longrightarrow> isl (create_tasks critics request resp)"
  by (induction critics) (auto split: critic_call.splits sum.splits)

lemma await_tasks_map:
  "await_tasks tasks
     = map (\<lambda>(nm, task). (nm, case task of Inr j \<Rightarrow> j | Inl exc \<Rightarrow> critic_error exc)) tasks"
  by (induction tasks) auto

text \<open>
  When every call schedules its task, the fan-out returns, and its result is the
  specification's: each critic's own judgment where its task returned one, the
  zero-filled judgment where its task raised. The fan-out raises exactly when some
  call raises.
\<close>

lemma awaited_failures_isolated:
  assumes "list_all (schedules request resp) critics"
  shows "evaluate_critics critics request resp = Inr (spec_fan_out critics request resp)"
proof -
  have "map (\<lambda>(nm, task). (nm, case task of Inr j \<Rightarrow> j | Inl exc \<Rightarrow> critic_error exc))
          (map (\<lambda>(nm, c). (nm, case c request resp of
                                    Scheduled task \<Rightarrow> task
                                  | CallRaises exc \<Rightarrow> Inl exc)) critics)
        = map (\<lambda>(nm, c). (nm, spec_judgment (c request resp))) critics"
    using assms
    by (induction critics) (auto split: critic_call.splits sum.splits)
  then show ?thesis
    by (simp add: evaluate_critics_def create_tasks_scheduled [OF assms] await_tasks_map
          spec_fan_out_def)
qed

lemma fan_out_raises_iff:
  "isl (evaluate_critics critics request resp)
     \<longleftrightarrow> \<not> list_all (schedules request resp) critics"
proof (cases "list_all (schedules request resp) critics")
  case True
  then show ?thesis by (simp add: awaited_failures_isolated)
next
  case False
  from create_tasks_raises [OF False] show ?thesis
    using False by (auto simp add: evaluate_critics_def split: sum.splits)
qed

text \<open>
  The specification's result without one critic is its result with that critic
  removed from it: no critic's judgment depends on another critic.
\<close>

lemma spec_fan_out_without:
  "spec_fan_out (filter (\<lambda>(n, c). n \<noteq> nm) critics) request resp
     = filter (\<lambda>(n, j). n \<noteq> nm) (spec_fan_out critics request resp)"
  by (induction critics) (auto simp add: spec_fan_out_def)

lemma awaited_failure_at_panel:
  "evaluate_critics panel [] done_response
     = Inr [(''risk'', \<lparr>score = Some 0.8, confidence = Some 0.9, violation = Some False,
                        rationale = Some ''ok''\<rparr>),
            (''truth'', \<lparr>score = Some 0, confidence = Some 0, violation = Some False,
                         rationale = Some ''Critic error: model offline''\<rparr>),
            (''fairness'', \<lparr>score = Some 0.8, confidence = Some 0.9, violation = Some False,
                            rationale = Some ''ok''\<rparr>)]"
  by (simp add: evaluate_critics_def panel_def steady_critic_def broken_critic_def
        critic_error_def)

text \<open>
  C8, at a failing input. In a panel of three critics the \<open>evaluate\<close> of one is a plain
  method that raises \<open>ValueError\<close> before it returns its coroutine. The exception is
  raised in the comprehension that creates the tasks, before the \<open>try\<close>, and
  \<open>_evaluate_critics\<close> raises it: no results map is returned, where the specification's
  fan-out gives the zero-filled judgment for that critic and, for the two others, the
  judgments that they produce when run without it.
\<close>

theorem critic_call_failure_aborts_fan_out:
  "evaluate_critics guarded_panel [] done_response = Inl (Exc ValueError ''no prompt'')
   \<and> spec_fan_out guarded_panel [] done_response
       = [(''risk'', \<lparr>score = Some 0.8, confidence = Some 0.9, violation = Some False,
                       rationale = Some ''ok''\<rparr>),
          (''truth'', \<lparr>score = Some 0, confidence = Some 0, violation = Some False,
                        rationale = Some ''Critic error: no prompt''\<rparr>),
          (''fairness'', \<lparr>score = Some 0.8, confidence = Some 0.9, violation = Some False,
                           rationale = Some ''ok''\<rparr>)]
   \<and> evaluate_critics [(''risk'', steady_critic), (''fairness'', steady_critic)]
         [] done_response
       = Inr [(''risk'', \<lparr>score = Some 0.8, confidence = Some 0.9, violation = Some False,
                           rationale = Some ''ok''\<rparr>),
              (''fairness'', \<lparr>score = Some 0.8, confidence = Some 0.9,
                               violation = Some False, rationale = Some ''ok''\<rparr>)]"
  by (simp add: evaluate_critics_def spec_fan_out_def guarded_panel_def steady_critic_def
        guarded_critic_def critic_error_def)

section \<open>The runtime shell\<close>

text \<open>
  C3. For every hybrid core, timeout, request id, request and world, \<open>decide\<close> returns
  an envelope and raises nothing, whatever the listeners and hooks do. The envelope is
  the deliberation's decision when it returns in time; it is
  \<open>{action: "escalate", reason: str(exc), id}\<close> when the deliberation raises
  \<open>EscalationRequired\<close>, and \<open>{action: "error", error: str(exc), id}\<close> on any other
  exception, the \<open>TimeoutError\<close> of the decision timeout included. In each case the
  envelope has an \<open>action\<close>.
\<close>

theorem runtime_never_raises:
  "\<exists>env w'.
     runtime_decide hyb decision_timeout req_id request w = (Inr env, w')
     \<and> env =
         (case wait_for decision_timeout
                 (fst (hyb request (before_deliberation req_id request w))) of
            Inr result \<Rightarrow> result
          | Inl exc \<Rightarrow>
              if exc_kind_of exc = EscalationRequired
              then EscalateEnvelope (str_exc exc) req_id
              else ErrorEnvelope (str_exc exc) req_id)
     \<and> envelope_action env =
         (case wait_for decision_timeout
                 (fst (hyb request (before_deliberation req_id request w))) of
            Inr result \<Rightarrow> envelope_action result
          | Inl exc \<Rightarrow>
              if exc_kind_of exc = EscalationRequired then ''escalate'' else ''error'')"
proof -
  define W where "W = before_deliberation req_id request w"
  obtain a w1 where h: "hyb request W = (a, w1)" by (cases "hyb request W")
  have pre: "and_then (log_request req_id request) (\<lambda>u.
          and_then (emit ''runtime.request.received''
                      (Some [(''id'', DStr req_id), (''request'', DRequest request)]) None) (\<lambda>ev.
          and_then (fire ''before_runtime_step''
                      [(''id'', DStr req_id), (''request'', DRequest request)]) (\<lambda>u.
          and_then (start_span ''runtime.decide'' (Some [(''req_id'', DStr req_id)])) (\<lambda>sp.
          increment_active)))) w = (Inr (), W)"
    by (simp add: W_def before_deliberation_def and_then_def log_request_def emit_eq fire_eq
          start_span_eq increment_active_def)
  show ?thesis
  proof (cases "wait_for decision_timeout a")
    case (Inr result)
    then show ?thesis
      using h pre
      by (simp add: runtime_decide_def W_def [symmetric] and_then_def try_except_def
            try_finally_def log_request_def emit_eq fire_eq start_span_eq end_span_eq
            increment_active_def decrement_active_def complete_def deliberate_within_def
            returns_def before_deliberation_def)
  next
    case (Inl exc)
    then show ?thesis
      using h pre
      by (simp add: runtime_decide_def W_def [symmetric] and_then_def try_except_def
            try_finally_def log_request_def emit_eq fire_eq start_span_eq end_span_eq
            increment_active_def decrement_active_def fail_def deliberate_within_def
            returns_def before_deliberation_def emit_trace_eq log_error_def)
  qed
qed

end
